theory Spec2Isabelle
  imports Main
begin

section \<open>Documents of the three collections\<close>

text \<open>
  The hook \<open>useSystemValidation\<close> reads three Firestore collections. A document is a
  JavaScript object; a field that the document does not carry reads as \<open>undefined\<close>,
  which is \<open>None\<close> here. Dates and statuses are strings. A JavaScript number is an
  IEEE double; the amounts and counters carried here are the whole numbers among them
  (\<open>int\<close>). On whole numbers of magnitude at most \<open>2 ^ 53\<close> the model's \<open>+\<close> is the
  code's \<open>+\<close> as long as the result stays in that range, where a double addition is
  exact; beyond it the code rounds and the model does not (\<open>exactTotals\<close> below
  says when a sum stays inside).
\<close>

record booking =
  bid :: string
  date :: "string option"
  status :: "string option"
  revenue :: "int option"
  price :: "int option"

record conversation =
  cid :: string
  unreadCount :: "int option"

type_synonym client = string

text \<open>\<open>interface SystemStats\<close>; \<open>lastUpdate\<close> is the millisecond reading of
  \<open>new Date()\<close>.\<close>

record stats =
  todaysBookings :: nat
  pendingMessages :: int
  activeCustomers :: nat
  revenueToday :: int
  lastUpdate :: int

text \<open>
  What the wall clock says when a handler runs: \<open>today\<close> is
  \<open>new Date().toISOString().split("T")[0]\<close>, \<open>nowMs\<close> is \<open>new Date().getTime()\<close>
  and \<open>tomorrowMs\<close> is the local midnight that follows \<open>now\<close>
  (\<open>setDate(getDate() + 1); setHours(0, 0, 0, 0)\<close>).
\<close>

record clock =
  today :: string
  nowMs :: int
  tomorrowMs :: int

section \<open>The arithmetic of the handlers\<close>

text \<open>JavaScript's \<open>a || b\<close> on an optional number: \<open>undefined\<close> and \<open>0\<close> are falsy.\<close>

definition truthy :: "int option \<Rightarrow> bool" where
  "truthy v = (case v of None \<Rightarrow> False | Some n \<Rightarrow> n \<noteq> 0)"

definition js_or :: "int option \<Rightarrow> int option \<Rightarrow> int option" where
  "js_or a b = (if truthy a then a else b)"

text \<open>\<open>a || 0\<close>, whose value is always a number.\<close>

definition or_zero :: "int option \<Rightarrow> int" where
  "or_zero a = (case a of None \<Rightarrow> 0 | Some n \<Rightarrow> if n \<noteq> 0 then n else 0)"

text \<open>\<open>(sum, booking) => sum + (booking.revenue || booking.price || 0)\<close>\<close>

definition addRevenue :: "int \<Rightarrow> booking \<Rightarrow> int" where
  "addRevenue acc booking = acc + or_zero (js_or (revenue booking) (price booking))"

text \<open>\<open>completedBookings.reduce(..., 0)\<close>\<close>

definition reduceRevenue :: "booking list \<Rightarrow> int" where
  "reduceRevenue completedBookings = foldl addRevenue 0 completedBookings"

text \<open>\<open>.filter((booking) => booking.status === "completed")\<close>\<close>

definition completedOf :: "booking list \<Rightarrow> booking list" where
  "completedOf bookings = filter (\<lambda>booking. status booking = Some ''completed'') bookings"

text \<open>\<open>.filter((booking) => booking.date === currentDate)\<close>\<close>

definition onDate :: "string \<Rightarrow> booking list \<Rightarrow> booking list" where
  "onDate currentDate allBookings = filter (\<lambda>booking. date booking = Some currentDate) allBookings"

text \<open>\<open>conversations.reduce((sum, conv) => sum + (conv.unreadCount || 0), 0)\<close>\<close>

definition addUnread :: "int \<Rightarrow> conversation \<Rightarrow> int" where
  "addUnread acc conv = acc + or_zero (unreadCount conv)"

definition reduceUnread :: "conversation list \<Rightarrow> int" where
  "reduceUnread conversations = foldl addUnread 0 conversations"

text \<open>\<open>getSecondsUntilMidnight\<close>:
  \<open>Math.max(0, Math.floor((tomorrow.getTime() - now.getTime()) / 1000))\<close>\<close>

definition getSecondsUntilMidnight :: "clock \<Rightarrow> int" where
  "getSecondsUntilMidnight clk = max 0 ((tomorrowMs clk - nowMs clk) div 1000)"

section \<open>The listener effect\<close>

text \<open>
  The second effect of the hook runs once the latch is set. Its closure holds
  \<open>currentDate\<close> and \<open>midnightTimer\<close>; the runtime holds the pending timeouts (handle
  and delay), the promises of \<open>getDocs\<close> that the midnight callback started and that
  have not settled, and the three Firestore subscriptions. \<open>console\<close> is what
  \<open>console.log\<close> has printed, \<open>unhandled\<close> the rejections nobody catches.
\<close>

datatype logline =
    SettingUp
  | ResetIn int
  | MidnightReached
  | PostMidnight nat nat int
  | DateChanged
  | RealTime nat nat int

datatype js_error = JsError (message: "string option")

record listeners =
  currentDate :: string
  midnightTimer :: nat
  timers :: "(nat \<times> int) list"
  nextTimer :: nat
  refetches :: nat
  bookingsSub :: bool
  conversationsSub :: bool
  clientsSub :: bool
  lstats :: stats
  console :: "logline list"
  unhandled :: "js_error list"

text \<open>\<open>clearTimeout(h)\<close>: a handle that is not pending is ignored.\<close>

definition clearTimeout :: "nat \<Rightarrow> listeners \<Rightarrow> listeners" where
  "clearTimeout h s = s\<lparr>timers := filter (\<lambda>t. fst t \<noteq> h) (timers s)\<rparr>"

text \<open>\<open>setupMidnightReset\<close>: log, then \<open>midnightTimer = setTimeout(..., seconds * 1000)\<close>
  with a fresh handle. It does not clear the handle it overwrites.\<close>

definition setupMidnightReset :: "clock \<Rightarrow> listeners \<Rightarrow> listeners" where
  "setupMidnightReset clk s =
     (let secondsUntilMidnight = getSecondsUntilMidnight clk in
      s\<lparr>console := console s @ [ResetIn secondsUntilMidnight],
        timers := timers s @ [(nextTimer s, secondsUntilMidnight * 1000)],
        midnightTimer := nextTimer s,
        nextTimer := Suc (nextTimer s)\<rparr>)"

text \<open>The body of the effect: \<open>currentDate = getToday()\<close>, the first
  \<open>setupMidnightReset()\<close> and the three \<open>onSnapshot\<close> subscriptions. \<open>st\<close> is the
  hook's \<open>stats\<close> at that moment, \<open>h\<close> the next free timeout handle.\<close>

definition setupListeners :: "clock \<Rightarrow> nat \<Rightarrow> stats \<Rightarrow> listeners" where
  "setupListeners clk h st =
     setupMidnightReset clk
       \<lparr>currentDate = today clk, midnightTimer = h, timers = [], nextTimer = h,
        refetches = 0, bookingsSub = True, conversationsSub = True, clientsSub = True,
        lstats = st, console = [SettingUp], unhandled = []\<rparr>"

text \<open>The timeout's callback up to \<open>getDocs(bookingsQuery)\<close>: the date is overwritten
  without a comparison, and a fetch of all bookings is started.\<close>

definition onMidnightTimer :: "clock \<Rightarrow> listeners \<Rightarrow> listeners" where
  "onMidnightTimer clk s =
     s\<lparr>console := console s @ [MidnightReached],
       currentDate := today clk,
       refetches := Suc (refetches s)\<rparr>"

text \<open>The \<open>.then\<close> continuation of that fetch. It reads \<open>currentDate\<close> when it runs,
  merges with \<open>setStats((prev) => ({...prev, ...}))\<close> and calls
  \<open>setupMidnightReset()\<close>. Nothing in it asks whether the effect was cleaned up.\<close>

definition onRefetched :: "clock \<Rightarrow> booking list \<Rightarrow> listeners \<Rightarrow> listeners" where
  "onRefetched clk allBookings s =
     (let todays = onDate (currentDate s) allBookings;
          completedBookings = completedOf todays;
          revenue = reduceRevenue completedBookings;
          s1 = s\<lparr>console := console s @ [PostMidnight (length todays) (length completedBookings) revenue],
                 lstats := (lstats s)\<lparr>todaysBookings := length todays,
                                      revenueToday := revenue,
                                      lastUpdate := nowMs clk\<rparr>\<rparr>
      in setupMidnightReset clk s1)"

text \<open>The callback of the bookings subscription.\<close>

definition onBookingsSnapshot :: "clock \<Rightarrow> booking list \<Rightarrow> listeners \<Rightarrow> listeners" where
  "onBookingsSnapshot clk allBookings s =
     (let newDate = today clk;
          s1 = (if newDate \<noteq> currentDate s
                then setupMidnightReset clk
                       (clearTimeout (midnightTimer s)
                          (s\<lparr>console := console s @ [DateChanged], currentDate := newDate\<rparr>))
                else s);
          todays = onDate (currentDate s1) allBookings;
          completedBookings = completedOf todays;
          revenue = reduceRevenue completedBookings
      in s1\<lparr>console := console s1 @ [RealTime (length todays) (length completedBookings) revenue],
            lstats := (lstats s1)\<lparr>todaysBookings := length todays,
                                  revenueToday := revenue,
                                  lastUpdate := nowMs clk\<rparr>\<rparr>)"

text \<open>The callbacks of the conversations and clients subscriptions.\<close>

definition onConversationsSnapshot :: "clock \<Rightarrow> conversation list \<Rightarrow> listeners \<Rightarrow> listeners" where
  "onConversationsSnapshot clk conversations s =
     (let pending = reduceUnread conversations
      in s\<lparr>lstats := (lstats s)\<lparr>pendingMessages := pending, lastUpdate := nowMs clk\<rparr>\<rparr>)"

definition onClientsSnapshot :: "clock \<Rightarrow> client list \<Rightarrow> listeners \<Rightarrow> listeners" where
  "onClientsSnapshot clk docs s =
     s\<lparr>lstats := (lstats s)\<lparr>activeCustomers := length docs, lastUpdate := nowMs clk\<rparr>\<rparr>"

text \<open>The cleanup the effect returns.\<close>

definition cleanup :: "listeners \<Rightarrow> listeners" where
  "cleanup s =
     (clearTimeout (midnightTimer s) s)
       \<lparr>bookingsSub := False, conversationsSub := False, clientsSub := False\<rparr>"

text \<open>
  The events the runtime can deliver to the effect, one at a time, and when each can
  happen: a timeout fires only while it is pending, a fetch settles only while it is in
  flight, and Firestore calls a subscription's callback only until its \<open>unsubscribe\<close>
  has been called. A timeout that fires is no longer pending. \<open>None\<close> says the event
  cannot happen in that state.
\<close>

datatype event =
    TimerFires nat clock
  | RefetchResolves clock "booking list"
  | RefetchRejects js_error
  | BookingsSnapshot clock "booking list"
  | ConversationsSnapshot clock "conversation list"
  | ClientsSnapshot clock "client list"
  | Cleanup

definition step :: "event \<Rightarrow> listeners \<Rightarrow> listeners option" where
  "step e s =
     (case e of
        TimerFires h clk \<Rightarrow>
          if h \<in> fst ` set (timers s)
          then Some (onMidnightTimer clk (clearTimeout h s)) else None
      | RefetchResolves clk allBookings \<Rightarrow>
          if 0 < refetches s
          then Some (onRefetched clk allBookings (s\<lparr>refetches := refetches s - 1\<rparr>)) else None
      | RefetchRejects err \<Rightarrow>
          if 0 < refetches s
          then Some (s\<lparr>refetches := refetches s - 1, unhandled := unhandled s @ [err]\<rparr>) else None
      | BookingsSnapshot clk allBookings \<Rightarrow>
          if bookingsSub s then Some (onBookingsSnapshot clk allBookings s) else None
      | ConversationsSnapshot clk conversations \<Rightarrow>
          if conversationsSub s then Some (onConversationsSnapshot clk conversations s) else None
      | ClientsSnapshot clk docs \<Rightarrow>
          if clientsSub s then Some (onClientsSnapshot clk docs s) else None
      | Cleanup \<Rightarrow>
          if bookingsSub s \<or> conversationsSub s \<or> clientsSub s then Some (cleanup s) else None)"

fun run :: "event list \<Rightarrow> listeners \<Rightarrow> listeners option" where
  "run [] s = Some s"
| "run (e # es) s = (case step e s of None \<Rightarrow> None | Some s' \<Rightarrow> run es s')"

section \<open>The validation effect\<close>

text \<open>
  The first effect of the hook, with the state it reads and writes: the two values of
  \<open>useAdminAuth\<close> (\<open>user\<close> is the identity of the user object, \<open>None\<close> when it is
  falsy), the latch \<open>isValidated\<close>, the \<open>stats\<close>, whether the effect's one-second
  timeout is pending, and the calls of \<open>runValidation\<close> that are waiting at an
  \<open>await\<close>, each with the local variables it has computed so far. \<open>toasts\<close> and
  \<open>fetchLog\<close> record the calls of \<open>toast\<close> and \<open>getDocs\<close>.
\<close>

datatype toast = ToastSuccess nat int nat int | ToastError string

datatype query = BookingsWhereDate string | AllConversations | AllClients

datatype vrun =
    AwaitBookings string
  | AwaitConversations "booking list" int
  | AwaitClients "booking list" int int

record validation =
  isAdmin :: bool
  user :: "nat option"
  isValidated :: bool
  vstats :: stats
  valTimer :: bool
  runs :: "nat \<rightharpoonup> vrun"
  nextRun :: nat
  toasts :: "toast list"
  fetchLog :: "query list"

text \<open>\<open>useState\<close>'s initial values; \<open>now\<close> is the \<open>new Date()\<close> of the first render.\<close>

definition initialHook :: "int \<Rightarrow> validation" where
  "initialHook now =
     \<lparr>isAdmin = False, user = None, isValidated = False,
      vstats = \<lparr>todaysBookings = 0, pendingMessages = 0, activeCustomers = 0,
                revenueToday = 0, lastUpdate = now\<rparr>,
      valTimer = False, runs = Map.empty, nextRun = 0, toasts = [], fetchLog = []\<rparr>"

text \<open>One run of the effect after its dependencies changed: the previous run's cleanup
  (\<open>clearTimeout(timer)\<close>), then the guard and \<open>setTimeout(runValidation, 1000)\<close>.\<close>

definition validationEffect :: "validation \<Rightarrow> validation" where
  "validationEffect s =
     (let s0 = s\<lparr>valTimer := False\<rparr> in
      if \<not> isAdmin s \<or> user s = None \<or> isValidated s then s0 else s0\<lparr>valTimer := True\<rparr>)"

text \<open>\<open>runValidation\<close> up to its first \<open>await\<close>: \<open>today\<close> is read and the filtered
  bookings query is sent.\<close>

definition startValidation :: "clock \<Rightarrow> validation \<Rightarrow> validation" where
  "startValidation clk s =
     s\<lparr>valTimer := False,
       runs := (runs s)(nextRun s \<mapsto> AwaitBookings (today clk)),
       nextRun := Suc (nextRun s),
       fetchLog := fetchLog s @ [BookingsWhereDate (today clk)]\<rparr>"

text \<open>A template literal prints an absent value as \<open>undefined\<close>.\<close>

definition templateStr :: "string option \<Rightarrow> string" where
  "templateStr m = (case m of None \<Rightarrow> ''undefined'' | Some t \<Rightarrow> t)"

text \<open>The \<open>catch\<close> block: \<open>toast.error(`System validation failed: ${error.message}`)\<close>;
  the run ends there.\<close>

definition validationFailed :: "nat \<Rightarrow> js_error \<Rightarrow> validation \<Rightarrow> validation" where
  "validationFailed r err s =
     s\<lparr>runs := (runs s)(r := None),
       toasts := toasts s @ [ToastError (''System validation failed: '' @ templateStr (message err))]\<rparr>"

text \<open>The run resumes after each \<open>await getDocs(...)\<close>. The answer is either the
  rejection or the contents of the collection; for the bookings query Firestore returns
  the documents that satisfy \<open>where("date", "==", today)\<close>.\<close>

definition bookingsFetched ::
  "nat \<Rightarrow> string \<Rightarrow> js_error + booking list \<Rightarrow> validation \<Rightarrow> validation" where
  "bookingsFetched r today' res s =
     (case res of
        Inl err \<Rightarrow> validationFailed r err s
      | Inr stored \<Rightarrow>
          (let bookings = onDate today' stored;
               completedBookings = completedOf bookings;
               revenue' = reduceRevenue completedBookings
           in s\<lparr>runs := (runs s)(r \<mapsto> AwaitConversations bookings revenue'),
                 fetchLog := fetchLog s @ [AllConversations]\<rparr>))"

definition conversationsFetched ::
  "nat \<Rightarrow> booking list \<Rightarrow> int \<Rightarrow> js_error + conversation list \<Rightarrow> validation \<Rightarrow> validation" where
  "conversationsFetched r bookings revenue' res s =
     (case res of
        Inl err \<Rightarrow> validationFailed r err s
      | Inr conversations \<Rightarrow>
          (let pending = reduceUnread conversations
           in s\<lparr>runs := (runs s)(r \<mapsto> AwaitClients bookings revenue' pending),
                 fetchLog := fetchLog s @ [AllClients]\<rparr>))"

text \<open>After the last fetch: \<open>setStats(newStats); setIsValidated(true); toast.success\<close>.
  When the latch changes, React runs the effect again.\<close>

definition clientsFetched ::
  "nat \<Rightarrow> booking list \<Rightarrow> int \<Rightarrow> int \<Rightarrow> js_error + client list \<Rightarrow> clock \<Rightarrow> validation \<Rightarrow> validation" where
  "clientsFetched r bookings revenue' pending res clk s =
     (case res of
        Inl err \<Rightarrow> validationFailed r err s
      | Inr docs \<Rightarrow>
          (let newStats = \<lparr>todaysBookings = length bookings, pendingMessages = pending,
                           activeCustomers = length docs, revenueToday = revenue',
                           lastUpdate = nowMs clk\<rparr>;
               s1 = s\<lparr>runs := (runs s)(r := None),
                      vstats := newStats,
                      isValidated := True,
                      toasts := toasts s @ [ToastSuccess (todaysBookings newStats) (pendingMessages newStats)
                                             (activeCustomers newStats) (revenueToday newStats)]\<rparr>
           in if isValidated s then s1 else validationEffect s1))"

datatype vevent =
    AuthChanges bool "nat option"
  | ValidationTimerFires clock
  | BookingsFetched nat "js_error + booking list"
  | ConversationsFetched nat "js_error + conversation list"
  | ClientsFetched nat "js_error + client list" clock

text \<open>When each event can happen: the timeout fires only while pending, and a fetch
  settles only for the run that is waiting for it. A change of \<open>isAdmin\<close> or \<open>user\<close>
  runs the effect again.\<close>

definition vstep :: "vevent \<Rightarrow> validation \<Rightarrow> validation option" where
  "vstep e s =
     (case e of
        AuthChanges a u \<Rightarrow>
          Some (if a = isAdmin s \<and> u = user s then s
                else validationEffect (s\<lparr>isAdmin := a, user := u\<rparr>))
      | ValidationTimerFires clk \<Rightarrow>
          if valTimer s then Some (startValidation clk s) else None
      | BookingsFetched r res \<Rightarrow>
          (case runs s r of
             Some (AwaitBookings d) \<Rightarrow> Some (bookingsFetched r d res s)
           | _ \<Rightarrow> None)
      | ConversationsFetched r res \<Rightarrow>
          (case runs s r of
             Some (AwaitConversations bookings revenue') \<Rightarrow>
               Some (conversationsFetched r bookings revenue' res s)
           | _ \<Rightarrow> None)
      | ClientsFetched r res clk \<Rightarrow>
          (case runs s r of
             Some (AwaitClients bookings revenue' pending) \<Rightarrow>
               Some (clientsFetched r bookings revenue' pending res clk s)
           | _ \<Rightarrow> None))"

fun vrun_all :: "vevent list \<Rightarrow> validation \<Rightarrow> validation option" where
  "vrun_all [] s = Some s"
| "vrun_all (e # es) s = (case vstep e s of None \<Rightarrow> None | Some s' \<Rightarrow> vrun_all es s')"

section \<open>The STK push route\<close>

text \<open>
  \<open>POST\<close> of \<open>app/api/mpesa/stkpush/route.ts\<close>. The body that \<open>request.json()\<close>
  yields is a JSON value, over any type \<open>'n\<close> of numbers whose \<open>0\<close> is the falsy
  number. \<open>initiateStkPush\<close> lives in \<open>@/lib/mpesa\<close>; the handler takes it as the
  parameter \<open>push\<close>.
\<close>

datatype 'n json =
    JNull
  | JBool bool
  | JNum 'n
  | JStr string
  | JArr "'n json list"
  | JObj "(string \<times> 'n json) list"

datatype 'n response = Response (status_code: nat) (body: "'n json")

text \<open>
  What a \<open>throw\<close> or a rejected promise carries is any JavaScript value, and the
  \<open>catch\<close> block reads its \<open>message\<close>. \<open>ThrownNullish\<close> is \<open>null\<close> or
  \<open>undefined\<close>, of which no property can be read. \<open>Thrown m\<close> is any other value,
  \<open>m\<close> being what \<open>error.message\<close> reads: \<open>None\<close> when the value has no such
  property (a thrown string, an object without it), for an \<open>Error\<close> its message string.
\<close>

datatype 'n thrown = ThrownNullish | Thrown "'n json option"

text \<open>The wording of the two \<open>TypeError\<close>s the handler can provoke is the engine's:
  for destructuring \<open>null\<close>, and for reading a property of \<open>null\<close> or
  \<open>undefined\<close>.\<close>

record engine =
  destructureNullText :: string
  readNullishText :: string

text \<open>Reading a property: of an object its entry, of any other value but \<open>null\<close>
  nothing; the three names are no properties of strings, numbers, booleans or arrays.\<close>

definition getProp :: "'n json \<Rightarrow> string \<Rightarrow> 'n json option" where
  "getProp v k = (case v of JObj kvs \<Rightarrow> map_of kvs k | _ \<Rightarrow> None)"

text \<open>\<open>const { phoneNumber, amount, accountRef } = ...\<close>: destructuring \<open>null\<close>
  throws a \<open>TypeError\<close>.\<close>

definition destructure ::
  "engine \<Rightarrow> 'n json \<Rightarrow> 'n thrown + ('n json option \<times> 'n json option \<times> 'n json option)" where
  "destructure eng v =
     (case v of
        JNull \<Rightarrow> Inl (Thrown (Some (JStr (destructureNullText eng))))
      | _ \<Rightarrow> Inr (getProp v ''phoneNumber'', getProp v ''amount'', getProp v ''accountRef''))"

text \<open>\<open>!x\<close>\<close>

definition falsy :: "('n::zero) json option \<Rightarrow> bool" where
  "falsy x =
     (case x of
        None \<Rightarrow> True
      | Some JNull \<Rightarrow> True
      | Some (JBool b) \<Rightarrow> \<not> b
      | Some (JNum n) \<Rightarrow> n = 0
      | Some (JStr t) \<Rightarrow> t = []
      | Some (JArr _) \<Rightarrow> False
      | Some (JObj _) \<Rightarrow> False)"

definition missingFields :: "'n response" where
  "missingFields =
     Response 400 (JObj [(''error'', JStr ''Missing required fields (phoneNumber, amount, accountRef)'')])"

text \<open>
  The \<open>catch\<close> block: \<open>{ error: error.message || "Internal Server Error" }\<close> with
  status 500. Reading \<open>message\<close> of \<open>null\<close> or \<open>undefined\<close> throws inside the
  block, and that \<open>TypeError\<close> leaves the handler (\<open>Inl\<close>).
\<close>

definition caught :: "engine \<Rightarrow> ('n::zero) thrown \<Rightarrow> 'n thrown + 'n response" where
  "caught eng err =
     (case err of
        ThrownNullish \<Rightarrow> Inl (Thrown (Some (JStr (readNullishText eng))))
      | Thrown m \<Rightarrow>
          Inr (Response 500
                 (JObj [(''error'', (case m of
                                      None \<Rightarrow> JStr ''Internal Server Error''
                                    | Some x \<Rightarrow> if falsy (Some x)
                                                then JStr ''Internal Server Error'' else x))])))"

text \<open>
  The handler. \<open>parsed\<close> is what \<open>await request.json()\<close> does (\<open>Inl\<close>: it throws).
  The result is an exception that leaves the handler (\<open>Inl\<close>) or the response, together
  with the argument triples \<open>initiateStkPush\<close> was called with.
\<close>

definition POST ::
  "engine \<Rightarrow> ('n::zero) thrown + 'n json \<Rightarrow> ('n json \<Rightarrow> 'n json \<Rightarrow> 'n json \<Rightarrow> 'n thrown + 'n json)
     \<Rightarrow> ('n thrown + 'n response) \<times> ('n json \<times> 'n json \<times> 'n json) list" where
  "POST eng parsed push =
     (case parsed of
        Inl err \<Rightarrow> (caught eng err, [])
      | Inr v \<Rightarrow>
          (case destructure eng v of
             Inl err \<Rightarrow> (caught eng err, [])
           | Inr (phoneNumber, amount, accountRef) \<Rightarrow>
               if falsy phoneNumber \<or> falsy amount \<or> falsy accountRef
               then (Inr missingFields, [])
               else (case push (the phoneNumber) (the amount) (the accountRef) of
                       Inl err \<Rightarrow>
                         (caught eng err, [(the phoneNumber, the amount, the accountRef)])
                     | Inr result \<Rightarrow>
                         (Inr (Response 200 result),
                          [(the phoneNumber, the amount, the accountRef)]))))"

section \<open>The specification's words\<close>


text \<open>The contribution with zero treated like an absent revenue.\<close>

definition nonzero_contribution :: "booking \<Rightarrow> int" where
  "nonzero_contribution b =
     (case revenue b of
        Some r \<Rightarrow> if r \<noteq> 0 then r else (case price b of Some p \<Rightarrow> p | None \<Rightarrow> 0)
      | None \<Rightarrow> (case price b of Some p \<Rightarrow> p | None \<Rightarrow> 0))"

text \<open>The sum over the completed bookings of day \<open>D\<close>.\<close>

definition completed_sum :: "(booking \<Rightarrow> int) \<Rightarrow> booking list \<Rightarrow> string \<Rightarrow> int" where
  "completed_sum f B D =
     sum_list (map f (filter (\<lambda>b. date b = Some D \<and> status b = Some ''completed'') B))"




text \<open>The number of bookings of day \<open>D\<close>, by position in the snapshot.\<close>

definition bookings_on :: "booking list \<Rightarrow> string \<Rightarrow> nat" where
  "bookings_on B D = card {i. i < length B \<and> date (B ! i) = Some D}"

text \<open>The sum of the unread counters, an absent one counting 0.\<close>

definition unread_sum :: "conversation list \<Rightarrow> int" where
  "unread_sum C = sum_list (map (\<lambda>c. case unreadCount c of None \<Rightarrow> 0 | Some n \<Rightarrow> n) C)"

text \<open>The aggregate without its time stamp.\<close>

definition ignoringLastUpdate :: "stats \<Rightarrow> nat \<times> int \<times> nat \<times> int" where
  "ignoringLastUpdate st =
     (todaysBookings st, pendingMessages st, activeCustomers st, revenueToday st)"

text \<open>The states a sequence of events passes through, up to the first event that
  cannot happen.\<close>

fun trace :: "event list \<Rightarrow> listeners \<Rightarrow> listeners list" where
  "trace [] s = [s]"
| "trace (e # es) s = s # (case step e s of None \<Rightarrow> [] | Some s' \<Rightarrow> trace es s')"

text \<open>The handles of the pending timeouts.\<close>

definition pendingTimers :: "listeners \<Rightarrow> nat list" where
  "pendingTimers s = map fst (timers s)"

text \<open>How many times the log shows a recomputation of the day's figures.\<close>

definition recomputations :: "logline list \<Rightarrow> nat" where
  "recomputations lg =
     length (filter (\<lambda>l. case l of PostMidnight _ _ _ \<Rightarrow> True | RealTime _ _ _ \<Rightarrow> True | _ \<Rightarrow> False) lg)"

text \<open>The event with which the fetch a run is waiting for fails.\<close>

definition fetchFails :: "nat \<Rightarrow> vrun \<Rightarrow> js_error \<Rightarrow> clock \<Rightarrow> vevent" where
  "fetchFails r stage err clk =
     (case stage of
        AwaitBookings _ \<Rightarrow> BookingsFetched r (Inl err)
      | AwaitConversations _ _ \<Rightarrow> ConversationsFetched r (Inl err)
      | AwaitClients _ _ _ \<Rightarrow> ClientsFetched r (Inl err) clk)"

section \<open>Concrete inputs\<close>

definition clockOn :: "string \<Rightarrow> clock" where
  "clockOn d = \<lparr>today = d, nowMs = 1000, tomorrowMs = 61000\<rparr>"

definition zeroStats :: stats where
  "zeroStats = \<lparr>todaysBookings = 0, pendingMessages = 0, activeCustomers = 0,
                revenueToday = 0, lastUpdate = 0\<rparr>"

text \<open>The listeners as the effect leaves them on 2024-01-01.\<close>

definition listening :: listeners where
  "listening = setupListeners (clockOn ''2024-01-01'') 0 zeroStats"

text \<open>The bookings and conversations of the specification's scenarios.\<close>

definition scenarioBookings :: "booking list" where
  "scenarioBookings =
     [\<lparr>bid = ''b1'', date = Some ''2024-01-01'', status = Some ''completed'',
       revenue = Some 500, price = None\<rparr>,
      \<lparr>bid = ''b2'', date = Some ''2024-01-01'', status = Some ''pending'',
       revenue = Some 300, price = None\<rparr>,
      \<lparr>bid = ''b3'', date = Some ''2024-01-02'', status = Some ''completed'',
       revenue = None, price = Some 200\<rparr>]"

definition scenarioConversations :: "conversation list" where
  "scenarioConversations =
     [\<lparr>cid = ''c1'', unreadCount = Some 3\<rparr>,
      \<lparr>cid = ''c2'', unreadCount = Some 0\<rparr>,
      \<lparr>cid = ''c3'', unreadCount = Some 5\<rparr>]"


text \<open>An admin whose validation timeout is pending.\<close>

definition authorized :: validation where
  "authorized = validationEffect ((initialHook 0)\<lparr>isAdmin := True, user := Some 1\<rparr>)"

text \<open>A session in which the authorization signal fires again while the first run
  waits for its bookings: both runs start, the first one succeeds.\<close>

definition firstSuccess :: "vevent list" where
  "firstSuccess =
     [AuthChanges True (Some 1), ValidationTimerFires (clockOn ''2024-01-01''),
      AuthChanges True (Some 2), ValidationTimerFires (clockOn ''2024-01-01''),
      BookingsFetched 0 (Inr scenarioBookings),
      ConversationsFetched 0 (Inr scenarioConversations),
      ClientsFetched 0 (Inr []) (clockOn ''2024-01-01'')]"

text \<open>The answers to the second run's fetches, from collections that are empty by then.\<close>

definition secondPublish :: "vevent list" where
  "secondPublish =
     [BookingsFetched 1 (Inr []), ConversationsFetched 1 (Inr []),
      ClientsFetched 1 (Inr []) (clockOn ''2024-01-01'')]"

text \<open>Two request bodies, an engine, and three ways for \<open>initiateStkPush\<close> to throw:
  an error with a message, an error whose message is the empty string, and \<open>null\<close>.\<close>

definition zeroAmountBody :: "int json" where
  "zeroAmountBody =
     JObj [(''phoneNumber'', JStr ''254700000000''), (''amount'', JNum 0),
           (''accountRef'', JStr ''INV-1'')]"

definition fullBody :: "int json" where
  "fullBody =
     JObj [(''phoneNumber'', JStr ''254700000000''), (''amount'', JNum 150),
           (''accountRef'', JStr ''INV-1'')]"

definition someEngine :: engine where
  "someEngine =
     \<lparr>destructureNullText = ''Cannot destructure null'',
      readNullishText = ''Cannot read properties of null''\<rparr>"

definition pushTimesOut :: "int json \<Rightarrow> int json \<Rightarrow> int json \<Rightarrow> int thrown + int json" where
  "pushTimesOut p a r = Inl (Thrown (Some (JStr ''timeout'')))"

definition pushThrowsEmpty :: "int json \<Rightarrow> int json \<Rightarrow> int json \<Rightarrow> int thrown + int json" where
  "pushThrowsEmpty p a r = Inl (Thrown (Some (JStr [])))"

definition pushThrowsNull :: "int json \<Rightarrow> int json \<Rightarrow> int json \<Rightarrow> int thrown + int json" where
  "pushThrowsNull p a r = Inl ThrownNullish"

text \<open>The hook after the timeout has fired: run 0 waits for its bookings.\<close>

definition waitingForBookings :: validation where
  "waitingForBookings = startValidation (clockOn ''2024-01-01'') authorized"

section \<open>Sums and counts\<close>

lemma foldl_addRevenue:
  "foldl addRevenue a xs = a + sum_list (map (\<lambda>b. or_zero (js_or (revenue b) (price b))) xs)"
  by (induction xs arbitrary: a) (simp_all add: addRevenue_def)

lemma js_contribution:
  "or_zero (js_or (revenue b) (price b)) = nonzero_contribution b"
  by (simp add: or_zero_def js_or_def truthy_def nonzero_contribution_def split: option.splits)

lemma reduceRevenue_sum:
  "reduceRevenue xs = sum_list (map nonzero_contribution xs)"
  by (simp add: reduceRevenue_def foldl_addRevenue js_contribution)

lemma revenue_of_day:
  "reduceRevenue (completedOf (onDate D B)) = completed_sum nonzero_contribution B D"
  by (simp add: reduceRevenue_sum completedOf_def onDate_def completed_sum_def conj_commute)

lemma length_onDate: "length (onDate D B) = bookings_on B D"
  by (simp add: onDate_def bookings_on_def length_filter_conv_card)

lemma foldl_addUnread:
  "foldl addUnread a xs =
     a + sum_list (map (\<lambda>c. case unreadCount c of None \<Rightarrow> 0 | Some n \<Rightarrow> n) xs)"
  by (induction xs arbitrary: a) (simp_all add: addUnread_def or_zero_def split: option.splits)

lemma reduceUnread_sum: "reduceUnread C = unread_sum C"
  by (simp add: reduceUnread_def unread_sum_def foldl_addUnread)

section \<open>What the handlers leave in the aggregate\<close>

lemma snapshot_stats:
  "lstats (onBookingsSnapshot clk B s) =
     (lstats s)\<lparr>todaysBookings := bookings_on B (today clk),
               revenueToday := completed_sum nonzero_contribution B (today clk),
               lastUpdate := nowMs clk\<rparr>"
  by (simp add: onBookingsSnapshot_def Let_def setupMidnightReset_def clearTimeout_def
      revenue_of_day length_onDate)

lemma refetched_stats:
  "lstats (onRefetched clk B s) =
     (lstats s)\<lparr>todaysBookings := bookings_on B (currentDate s),
               revenueToday := completed_sum nonzero_contribution B (currentDate s),
               lastUpdate := nowMs clk\<rparr>"
  by (simp add: onRefetched_def Let_def setupMidnightReset_def revenue_of_day length_onDate)

lemmas handler_defs =
  step_def onBookingsSnapshot_def onRefetched_def onMidnightTimer_def setupMidnightReset_def
  clearTimeout_def cleanup_def onConversationsSnapshot_def onClientsSnapshot_def

lemmas validation_defs =
  vstep_def validationEffect_def startValidation_def validationFailed_def
  bookingsFetched_def conversationsFetched_def clientsFetched_def

text \<open>A validation run whose three fetches succeed, from the timeout to the publication.\<close>

lemma validation_run:
  assumes "valTimer s"
  shows "vrun_all [ValidationTimerFires c, BookingsFetched (nextRun s) (Inr B),
                   ConversationsFetched (nextRun s) (Inr C),
                   ClientsFetched (nextRun s) (Inr K) c'] s
         = Some (s\<lparr>valTimer := False, runs := (runs s)(nextRun s := None),
                   nextRun := Suc (nextRun s),
                   fetchLog := fetchLog s @ [BookingsWhereDate (today c), AllConversations, AllClients],
                   vstats := \<lparr>todaysBookings = bookings_on B (today c),
                              pendingMessages = unread_sum C,
                              activeCustomers = length K,
                              revenueToday = completed_sum nonzero_contribution B (today c),
                              lastUpdate = nowMs c'\<rparr>,
                   isValidated := True,
                   toasts := toasts s @ [ToastSuccess (bookings_on B (today c)) (unread_sum C)
                      (length K) (completed_sum nonzero_contribution B (today c))]\<rparr>)"
  using assms
  by (simp add: validation_defs Let_def revenue_of_day length_onDate reduceUnread_sum)

lemma valTimer_authorized: "valTimer authorized"
  by (simp add: authorized_def validationEffect_def initialHook_def)

lemma today_clockOn: "today (clockOn d) = d"
  by (simp add: clockOn_def)

section \<open>The latch\<close>

text \<open>No event unsets the latch, and the aggregate changes in the validation effect
  only together with the latch being set.\<close>

lemma vstep_latch: "vstep e s = Some s' \<Longrightarrow> isValidated s \<Longrightarrow> isValidated s'"
  by (cases e)
     (auto simp: validation_defs Let_def split: if_splits option.splits vrun.splits sum.splits)

lemma vstep_unvalidated:
  "vstep e s = Some s' \<Longrightarrow> \<not> isValidated s' \<Longrightarrow> vstats s' = vstats s"
  by (cases e)
     (auto simp: validation_defs Let_def split: if_splits option.splits vrun.splits sum.splits)

lemma vrun_all_latch: "vrun_all es s = Some s' \<Longrightarrow> isValidated s \<Longrightarrow> isValidated s'"
  by (induction es arbitrary: s) (auto split: option.splits dest: vstep_latch)

lemma vrun_all_unvalidated:
  "vrun_all es s = Some s' \<Longrightarrow> \<not> isValidated s' \<Longrightarrow> vstats s' = vstats s"
proof (induction es arbitrary: s)
  case Nil
  then show ?case by simp
next
  case (Cons e es)
  from Cons.prems(1) obtain m where m: "vstep e s = Some m" and r: "vrun_all es m = Some s'"
    by (auto split: option.splits)
  from Cons.IH [OF r Cons.prems(2)] have a: "vstats s' = vstats m" .
  from vrun_all_latch [OF r] Cons.prems(2) have "\<not> isValidated m" by blast
  with m have "vstats m = vstats s" by (rule vstep_unvalidated)
  with a show ?case by simp
qed

text \<open>While the latch is set, the effect arms no timeout, so no run starts.\<close>

lemma no_timeout_once_validated:
  "isValidated s \<Longrightarrow> valTimer (validationEffect s) = False"
  by (simp add: validationEffect_def)

text \<open>After the cleanup Firestore delivers no snapshot to the three callbacks.\<close>

lemma cleanup_silences_subscriptions:
  "step (BookingsSnapshot c B) (cleanup s) = None
   \<and> step (ConversationsSnapshot c C) (cleanup s) = None
   \<and> step (ClientsSnapshot c K) (cleanup s) = None"
  by (simp add: step_def cleanup_def clearTimeout_def)

section \<open>Revenue, bookings and messages\<close>




text \<open>
  Claim C2. \<open>todaysBookings\<close> is the number of bookings of the snapshot whose date is the
  day, whatever their status: rewriting every status leaves it unchanged. The same count
  is what the validation run and the recomputation after midnight publish. In the
  scenario of the specification the callback reports 2 bookings and a revenue of 500.
\<close>

theorem C2_todaysBookings_count:
  "todaysBookings (lstats (onBookingsSnapshot clk B s)) = bookings_on B (today clk)
   \<and> todaysBookings (lstats (onBookingsSnapshot clk (map (\<lambda>b. b\<lparr>status := g b\<rparr>) B) s))
      = todaysBookings (lstats (onBookingsSnapshot clk B s))
   \<and> todaysBookings (lstats (onRefetched clk' B (onMidnightTimer clk s)))
      = bookings_on B (today clk)
   \<and> (valTimer v \<longrightarrow>
        map_option (\<lambda>v'. todaysBookings (vstats v'))
          (vrun_all [ValidationTimerFires c, BookingsFetched (nextRun v) (Inr B),
                     ConversationsFetched (nextRun v) (Inr C),
                     ClientsFetched (nextRun v) (Inr K) c'] v)
        = Some (bookings_on B (today c)))
   \<and> todaysBookings
        (lstats (onBookingsSnapshot (clk\<lparr>today := ''2024-01-01''\<rparr>) scenarioBookings s)) = 2
   \<and> revenueToday
        (lstats (onBookingsSnapshot (clk\<lparr>today := ''2024-01-01''\<rparr>) scenarioBookings s)) = 500"
proof (intro conjI impI)
  show "todaysBookings (lstats (onBookingsSnapshot clk B s)) = bookings_on B (today clk)"
    by (simp add: snapshot_stats)
  show "todaysBookings (lstats (onBookingsSnapshot clk (map (\<lambda>b. b\<lparr>status := g b\<rparr>) B) s))
      = todaysBookings (lstats (onBookingsSnapshot clk B s))"
    by (simp add: snapshot_stats flip: length_onDate) (simp add: onDate_def filter_map comp_def)
  show "todaysBookings (lstats (onRefetched clk' B (onMidnightTimer clk s)))
      = bookings_on B (today clk)"
    by (simp add: refetched_stats onMidnightTimer_def)
  show "todaysBookings
        (lstats (onBookingsSnapshot (clk\<lparr>today := ''2024-01-01''\<rparr>) scenarioBookings s)) = 2"
    by (simp add: snapshot_stats flip: length_onDate) (simp add: onDate_def scenarioBookings_def)
  show "revenueToday
        (lstats (onBookingsSnapshot (clk\<lparr>today := ''2024-01-01''\<rparr>) scenarioBookings s)) = 500"
    by (simp add: snapshot_stats completed_sum_def scenarioBookings_def nonzero_contribution_def)
next
  assume "valTimer v"
  then show "map_option (\<lambda>v'. todaysBookings (vstats v'))
          (vrun_all [ValidationTimerFires c, BookingsFetched (nextRun v) (Inr B),
                     ConversationsFetched (nextRun v) (Inr C),
                     ClientsFetched (nextRun v) (Inr K) c'] v)
        = Some (bookings_on B (today c))"
    by (simp only: validation_run option.map_sel option.simps) simp
qed

text \<open>The theorem at the scenario's bookings: two of them are dated 2024-01-01, and the
  validation run counts the same two.\<close>

theorem C2_todaysBookings_count_witness:
  "valTimer authorized
   \<and> bookings_on scenarioBookings ''2024-01-01'' = 2
   \<and> todaysBookings
       (lstats (onBookingsSnapshot (clockOn ''2024-01-01'') scenarioBookings listening)) = 2
   \<and> map_option (\<lambda>v'. todaysBookings (vstats v'))
        (vrun_all [ValidationTimerFires (clockOn ''2024-01-01''),
                   BookingsFetched (nextRun authorized) (Inr scenarioBookings),
                   ConversationsFetched (nextRun authorized) (Inr []),
                   ClientsFetched (nextRun authorized) (Inr []) (clockOn ''2024-01-01'')]
           authorized)
      = Some 2"
proof -
  have n: "bookings_on scenarioBookings ''2024-01-01'' = 2"
    by (simp flip: length_onDate) (simp add: onDate_def scenarioBookings_def)
  from C2_todaysBookings_count [of "clockOn ''2024-01-01''" scenarioBookings listening _ _
      authorized "clockOn ''2024-01-01''" "[]" "[]" "clockOn ''2024-01-01''"]
  show ?thesis using valTimer_authorized by (simp only: n today_clockOn)
qed

text \<open>
  Claim C8. \<open>pendingMessages\<close> is the sum of \<open>unreadCount\<close> over all conversations, an
  absent counter counting 0, in the subscription's callback and in the validation run;
  the callback does not read the current date, and for the scenario's conversations the
  result is 8 whatever the current date and the clock are.
\<close>

theorem C8_pendingMessages_sum:
  "pendingMessages (lstats (onConversationsSnapshot clk C s)) = unread_sum C
   \<and> (valTimer v \<longrightarrow>
        map_option (\<lambda>v'. pendingMessages (vstats v'))
          (vrun_all [ValidationTimerFires c, BookingsFetched (nextRun v) (Inr B),
                     ConversationsFetched (nextRun v) (Inr C),
                     ClientsFetched (nextRun v) (Inr K) c'] v)
        = Some (unread_sum C))
   \<and> pendingMessages
        (lstats (onConversationsSnapshot clk scenarioConversations (s\<lparr>currentDate := d\<rparr>))) = 8"
proof (intro conjI impI)
  show "pendingMessages (lstats (onConversationsSnapshot clk C s)) = unread_sum C"
    by (simp add: onConversationsSnapshot_def reduceUnread_sum)
  show "pendingMessages
        (lstats (onConversationsSnapshot clk scenarioConversations (s\<lparr>currentDate := d\<rparr>))) = 8"
    by (simp add: onConversationsSnapshot_def reduceUnread_sum)
       (simp add: unread_sum_def scenarioConversations_def)
next
  assume "valTimer v"
  then show "map_option (\<lambda>v'. pendingMessages (vstats v'))
          (vrun_all [ValidationTimerFires c, BookingsFetched (nextRun v) (Inr B),
                     ConversationsFetched (nextRun v) (Inr C),
                     ClientsFetched (nextRun v) (Inr K) c'] v)
        = Some (unread_sum C)"
    by (simp only: validation_run option.map_sel option.simps) simp
qed

text \<open>The theorem at the scenario's conversations, in the validation run.\<close>

theorem C8_pendingMessages_sum_witness:
  "valTimer authorized
   \<and> unread_sum scenarioConversations = 8
   \<and> map_option (\<lambda>v'. pendingMessages (vstats v'))
        (vrun_all [ValidationTimerFires (clockOn ''2024-01-01''),
                   BookingsFetched (nextRun authorized) (Inr []),
                   ConversationsFetched (nextRun authorized) (Inr scenarioConversations),
                   ClientsFetched (nextRun authorized) (Inr []) (clockOn ''2024-01-01'')]
           authorized)
      = Some 8"
proof -
  have n: "unread_sum scenarioConversations = 8"
    by (simp add: unread_sum_def scenarioConversations_def)
  from C8_pendingMessages_sum [of _ scenarioConversations _ authorized "clockOn ''2024-01-01''"
      "[]" "[]" "clockOn ''2024-01-01''"]
  show ?thesis using valTimer_authorized by (simp only: n)
qed

text \<open>
  Claim C6. Each merge overwrites the fields its handler computed and the time stamp, and
  nothing else: the bookings callback and the recomputation after midnight leave
  \<open>pendingMessages\<close> and \<open>activeCustomers\<close>, the conversations callback leaves
  \<open>todaysBookings\<close>, \<open>revenueToday\<close> and \<open>activeCustomers\<close>, the clients callback leaves
  \<open>todaysBookings\<close>, \<open>revenueToday\<close> and \<open>pendingMessages\<close>.
\<close>

theorem C6_merge_frame:
  "lstats (onBookingsSnapshot clk B s) =
     (lstats s)\<lparr>todaysBookings := todaysBookings (lstats (onBookingsSnapshot clk B s)),
               revenueToday := revenueToday (lstats (onBookingsSnapshot clk B s)),
               lastUpdate := nowMs clk\<rparr>
   \<and> pendingMessages (lstats (onBookingsSnapshot clk B s)) = pendingMessages (lstats s)
   \<and> activeCustomers (lstats (onBookingsSnapshot clk B s)) = activeCustomers (lstats s)
   \<and> lstats (onConversationsSnapshot clk C s) =
     (lstats s)\<lparr>pendingMessages := pendingMessages (lstats (onConversationsSnapshot clk C s)),
               lastUpdate := nowMs clk\<rparr>
   \<and> todaysBookings (lstats (onConversationsSnapshot clk C s)) = todaysBookings (lstats s)
   \<and> revenueToday (lstats (onConversationsSnapshot clk C s)) = revenueToday (lstats s)
   \<and> activeCustomers (lstats (onConversationsSnapshot clk C s)) = activeCustomers (lstats s)
   \<and> lstats (onClientsSnapshot clk K s) =
     (lstats s)\<lparr>activeCustomers := activeCustomers (lstats (onClientsSnapshot clk K s)),
               lastUpdate := nowMs clk\<rparr>
   \<and> todaysBookings (lstats (onClientsSnapshot clk K s)) = todaysBookings (lstats s)
   \<and> revenueToday (lstats (onClientsSnapshot clk K s)) = revenueToday (lstats s)
   \<and> pendingMessages (lstats (onClientsSnapshot clk K s)) = pendingMessages (lstats s)
   \<and> lstats (onRefetched clk B s) =
     (lstats s)\<lparr>todaysBookings := todaysBookings (lstats (onRefetched clk B s)),
               revenueToday := revenueToday (lstats (onRefetched clk B s)),
               lastUpdate := nowMs clk\<rparr>"
  by (simp add: snapshot_stats refetched_stats onConversationsSnapshot_def onClientsSnapshot_def)

section \<open>The day boundary\<close>

text \<open>
  Claim C9. With the same bookings \<open>B\<close> and the clock showing the same day \<open>D\<close>
  throughout, a bookings snapshot and a firing of the midnight timeout (with the answer to
  its fetch) leave the same aggregate, the time stamp apart, in whichever order they
  happen: the snapshot first and then the timeout that is pending after it, the timeout
  and its answer first, or the snapshot between the timeout and its answer.
\<close>

theorem C9_order_independence:
  assumes "today cS = D" and "today cF = D" and "bookingsSub s"
    and "midnightTimer s \<in> fst ` set (timers s)"
  shows
   "map_option (\<lambda>a. ignoringLastUpdate (lstats a))
      (run [BookingsSnapshot cS B,
            TimerFires (if D \<noteq> currentDate s then nextTimer s else midnightTimer s) cF,
            RefetchResolves cR B] s)
    = Some (bookings_on B D, pendingMessages (lstats s), activeCustomers (lstats s),
            completed_sum nonzero_contribution B D)
    \<and> map_option (\<lambda>a. ignoringLastUpdate (lstats a))
      (run [TimerFires (midnightTimer s) cF, RefetchResolves cR B, BookingsSnapshot cS B] s)
    = Some (bookings_on B D, pendingMessages (lstats s), activeCustomers (lstats s),
            completed_sum nonzero_contribution B D)
    \<and> map_option (\<lambda>a. ignoringLastUpdate (lstats a))
      (run [TimerFires (midnightTimer s) cF, BookingsSnapshot cS B, RefetchResolves cR B] s)
    = Some (bookings_on B D, pendingMessages (lstats s), activeCustomers (lstats s),
            completed_sum nonzero_contribution B D)"
  using assms
  by (simp add: handler_defs Let_def revenue_of_day length_onDate ignoringLastUpdate_def)

text \<open>The theorem for the scenario's bookings on 2024-01-02, starting from listeners set
  up the day before: every order ends with one booking and a revenue of 200.\<close>

theorem C9_order_independence_witness:
  "bookingsSub listening \<and> midnightTimer listening \<in> fst ` set (timers listening)
   \<and> map_option (\<lambda>a. ignoringLastUpdate (lstats a))
       (run [BookingsSnapshot (clockOn ''2024-01-02'') scenarioBookings,
             TimerFires 1 (clockOn ''2024-01-02''),
             RefetchResolves (clockOn ''2024-01-02'') scenarioBookings] listening)
     = Some (1, 0, 0, 200)
   \<and> map_option (\<lambda>a. ignoringLastUpdate (lstats a))
       (run [TimerFires 0 (clockOn ''2024-01-02''),
             RefetchResolves (clockOn ''2024-01-02'') scenarioBookings,
             BookingsSnapshot (clockOn ''2024-01-02'') scenarioBookings] listening)
     = Some (1, 0, 0, 200)"
proof -
  have L: "currentDate listening = ''2024-01-01''" "midnightTimer listening = 0"
    "nextTimer listening = 1" "timers listening = [(0, 60000)]" "bookingsSub listening"
    "pendingMessages (lstats listening) = 0" "activeCustomers (lstats listening) = 0"
    by (simp_all add: listening_def setupListeners_def setupMidnightReset_def
        getSecondsUntilMidnight_def clockOn_def zeroStats_def)
  have h: "midnightTimer listening \<in> fst ` set (timers listening)"
    by (simp add: L)
  have n: "bookings_on scenarioBookings ''2024-01-02'' = 1"
    by (simp flip: length_onDate) (simp add: onDate_def scenarioBookings_def)
  have r: "completed_sum nonzero_contribution scenarioBookings ''2024-01-02'' = 200"
    by (simp add: completed_sum_def scenarioBookings_def nonzero_contribution_def)
  from C9_order_independence [where cS = "clockOn ''2024-01-02''" and D = "''2024-01-02''"
      and cF = "clockOn ''2024-01-02''" and cR = "clockOn ''2024-01-02''"
      and B = scenarioBookings and s = listening, OF today_clockOn today_clockOn L(5) h]
  show ?thesis using h by (simp add: L n r)
qed

text \<open>
  Claim C5, as the code has it. Let one timeout be pending, the one the closure holds,
  and let the clock show a new date \<open>D'\<close> to both paths. If the timeout fires first, its
  callback sets the date and no timeout is pending until the answer to its fetch arms the
  next one; the snapshot, wherever it comes after the firing, finds the date unchanged and
  neither cancels nor arms a timeout, but it recomputes and merges the day's figures as
  on every snapshot. If the snapshot comes first, it sets the date, cancels the pending
  timeout and arms one, so the cancelled timeout cannot fire. The date changes once, and
  at most one timeout is pending in every state passed.
\<close>

theorem C5_single_transition:
  assumes "timers s = [(midnightTimer s, d)]" and "midnightTimer s \<noteq> nextTimer s"
    and "bookingsSub s"
    and "today cF = D'" and "today cS = D'" and "D' \<noteq> currentDate s"
  shows
   "map currentDate
      (trace [TimerFires (midnightTimer s) cF, RefetchResolves cR B, BookingsSnapshot cS B] s)
      = [currentDate s, D', D', D']
    \<and> map pendingTimers
      (trace [TimerFires (midnightTimer s) cF, RefetchResolves cR B, BookingsSnapshot cS B] s)
      = [[midnightTimer s], [], [nextTimer s], [nextTimer s]]
    \<and> map currentDate
      (trace [TimerFires (midnightTimer s) cF, BookingsSnapshot cS B, RefetchResolves cR B] s)
      = [currentDate s, D', D', D']
    \<and> map pendingTimers
      (trace [TimerFires (midnightTimer s) cF, BookingsSnapshot cS B, RefetchResolves cR B] s)
      = [[midnightTimer s], [], [], [nextTimer s]]
    \<and> map currentDate (trace [BookingsSnapshot cS B, TimerFires (midnightTimer s) cF] s)
      = [currentDate s, D']
    \<and> map pendingTimers (trace [BookingsSnapshot cS B, TimerFires (midnightTimer s) cF] s)
      = [[midnightTimer s], [nextTimer s]]
    \<and> map_option console
      (run [TimerFires (midnightTimer s) cF, RefetchResolves cR B, BookingsSnapshot cS B] s)
      = Some (console s @
          [MidnightReached,
           PostMidnight (bookings_on B D') (length (completedOf (onDate D' B)))
             (completed_sum nonzero_contribution B D'),
           ResetIn (getSecondsUntilMidnight cR),
           RealTime (bookings_on B D') (length (completedOf (onDate D' B)))
             (completed_sum nonzero_contribution B D')])"
  using assms
  by (simp add: handler_defs Let_def revenue_of_day length_onDate pendingTimers_def)

text \<open>The theorem for listeners set up on 2024-01-01 when both paths see 2024-01-02.\<close>

theorem C5_single_transition_witness:
  "timers listening = [(midnightTimer listening, 60000)]
   \<and> midnightTimer listening \<noteq> nextTimer listening
   \<and> bookingsSub listening
   \<and> map currentDate
       (trace [TimerFires 0 (clockOn ''2024-01-02''),
               RefetchResolves (clockOn ''2024-01-02'') scenarioBookings,
               BookingsSnapshot (clockOn ''2024-01-02'') scenarioBookings] listening)
     = [''2024-01-01'', ''2024-01-02'', ''2024-01-02'', ''2024-01-02'']
   \<and> map pendingTimers
       (trace [TimerFires 0 (clockOn ''2024-01-02''),
               RefetchResolves (clockOn ''2024-01-02'') scenarioBookings,
               BookingsSnapshot (clockOn ''2024-01-02'') scenarioBookings] listening)
     = [[0], [], [1], [1]]
   \<and> map pendingTimers
       (trace [BookingsSnapshot (clockOn ''2024-01-02'') scenarioBookings,
               TimerFires 0 (clockOn ''2024-01-02'')] listening)
     = [[0], [1]]"
proof -
  have L: "currentDate listening = ''2024-01-01''" "midnightTimer listening = 0"
    "nextTimer listening = 1" "timers listening = [(0, 60000)]" "bookingsSub listening"
    by (simp_all add: listening_def setupListeners_def setupMidnightReset_def
        getSecondsUntilMidnight_def clockOn_def)
  have h1: "timers listening = [(midnightTimer listening, 60000)]"
    and h2: "midnightTimer listening \<noteq> nextTimer listening"
    and h3: "''2024-01-02'' \<noteq> currentDate listening"
    by (simp_all add: L)
  from C5_single_transition [where cS = "clockOn ''2024-01-02''" and D' = "''2024-01-02''"
      and cF = "clockOn ''2024-01-02''" and cR = "clockOn ''2024-01-02''"
      and B = scenarioBookings and s = listening and d = 60000,
      OF h1 h2 L(5) today_clockOn today_clockOn h3]
  show ?thesis using h1 h2 by (simp add: L)
qed

text \<open>
  Claim C5 as it is worded fails where it says that the path that runs second performs no
  recomputation: after the timeout's path has moved the date to 2024-01-02 and recomputed
  the day's figures (one recomputation in the log), the bookings snapshot that follows
  recomputes them again from the same bookings (two).
\<close>

theorem C5_second_path_recomputes:
  "map_option (recomputations \<circ> console)
     (run [TimerFires 0 (clockOn ''2024-01-02''),
           RefetchResolves (clockOn ''2024-01-02'') scenarioBookings] listening) = Some 1
   \<and> map_option (recomputations \<circ> console)
     (run [TimerFires 0 (clockOn ''2024-01-02''),
           RefetchResolves (clockOn ''2024-01-02'') scenarioBookings,
           BookingsSnapshot (clockOn ''2024-01-02'') scenarioBookings] listening) = Some 2"
  by (simp add: handler_defs Let_def listening_def setupListeners_def clockOn_def
      recomputations_def)

section \<open>Teardown\<close>

text \<open>
  Claim C4 at the events: the midnight timeout fires, the effect is cleaned up while the
  fetch of its callback is in flight, the fetch resolves. The cleanup leaves no pending
  timeout and an aggregate of zeros; the continuation then writes one booking and a
  revenue of 200 into the aggregate and arms timeout 1, which nothing will cancel.
\<close>

theorem C4_refetch_after_cleanup:
  "map pendingTimers
     (trace [TimerFires 0 (clockOn ''2024-01-02''), Cleanup,
             RefetchResolves (clockOn ''2024-01-02'') scenarioBookings] listening)
     = [[0], [], [], [1]]
   \<and> map (\<lambda>a. ignoringLastUpdate (lstats a))
     (trace [TimerFires 0 (clockOn ''2024-01-02''), Cleanup,
             RefetchResolves (clockOn ''2024-01-02'') scenarioBookings] listening)
     = [(0, 0, 0, 0), (0, 0, 0, 0), (0, 0, 0, 0), (1, 0, 0, 200)]"
  by (simp add: handler_defs Let_def listening_def setupListeners_def clockOn_def
      pendingTimers_def ignoringLastUpdate_def zeroStats_def scenarioBookings_def
      reduceRevenue_def addRevenue_def or_zero_def js_or_def truthy_def completedOf_def onDate_def)

section \<open>The validation run\<close>

text \<open>
  Claim C3 at the events of \<open>firstSuccess\<close>: the user object changes while the first
  run waits for its bookings, so a second timeout is armed and a second run starts. When
  the first run has published (latch set, one success toast, four fetches so far), the
  second run is still waiting; its answers arrive, it sends its two remaining fetches,
  publishes its own figures over the first ones and toasts a second time.
\<close>

theorem C3_second_run_publishes:
  "map_option (\<lambda>v. (isValidated v, toasts v, fetchLog v, ignoringLastUpdate (vstats v)))
     (vrun_all firstSuccess (initialHook 0))
   = Some (True, [ToastSuccess 2 8 0 500],
           [BookingsWhereDate ''2024-01-01'', BookingsWhereDate ''2024-01-01'',
            AllConversations, AllClients],
           (2, 8, 0, 500))
   \<and> map_option (\<lambda>v. (isValidated v, toasts v, fetchLog v, ignoringLastUpdate (vstats v)))
     (vrun_all (firstSuccess @ secondPublish) (initialHook 0))
   = Some (True, [ToastSuccess 2 8 0 500, ToastSuccess 0 0 0 0],
           [BookingsWhereDate ''2024-01-01'', BookingsWhereDate ''2024-01-01'',
            AllConversations, AllClients, AllConversations, AllClients],
           (0, 0, 0, 0))"
  by (simp add: firstSuccess_def secondPublish_def initialHook_def validation_defs Let_def
      clockOn_def scenarioBookings_def scenarioConversations_def ignoringLastUpdate_def
      reduceRevenue_def addRevenue_def or_zero_def js_or_def truthy_def completedOf_def onDate_def
      reduceUnread_def addUnread_def)

text \<open>
  Claim C7. In a session whose latch is unset, let a run wait at any of its three
  fetches and let that fetch fail. The \<open>catch\<close> block is the whole reaction: the latch
  stays unset, one error toast with the error's message is added, the aggregate is the
  one of the first render (all zeros), no timeout is armed, no run is started and no fetch
  is sent; the failed run is gone.
\<close>

theorem C7_fetch_failure:
  assumes "vrun_all es (initialHook now) = Some s" and "\<not> isValidated s"
    and "runs s r = Some stage"
  shows "vstep (fetchFails r stage err clk) s = Some (validationFailed r err s)
    \<and> \<not> isValidated (validationFailed r err s)
    \<and> toasts (validationFailed r err s)
        = toasts s @ [ToastError (''System validation failed: '' @ templateStr (message err))]
    \<and> (\<forall>m. message err = Some m \<longrightarrow>
          last (toasts (validationFailed r err s))
            = ToastError (''System validation failed: '' @ m))
    \<and> vstats (validationFailed r err s) = vstats s
    \<and> ignoringLastUpdate (vstats (validationFailed r err s)) = (0, 0, 0, 0)
    \<and> valTimer (validationFailed r err s) = valTimer s
    \<and> nextRun (validationFailed r err s) = nextRun s
    \<and> fetchLog (validationFailed r err s) = fetchLog s
    \<and> runs (validationFailed r err s) = (runs s)(r := None)"
proof -
  have z: "vstats s = vstats (initialHook now)"
    using assms(1,2) by (rule vrun_all_unvalidated)
  have st: "vstep (fetchFails r stage err clk) s = Some (validationFailed r err s)"
    using assms(3)
    by (cases stage)
       (simp_all add: fetchFails_def vstep_def bookingsFetched_def conversationsFetched_def
          clientsFetched_def)
  show ?thesis
    using assms(2) z st
    by (simp add: validationFailed_def templateStr_def initialHook_def ignoringLastUpdate_def)
qed

text \<open>The theorem for a run whose first fetch is rejected with the message "offline".\<close>

theorem C7_fetch_failure_witness:
  "vrun_all [AuthChanges True (Some 1), ValidationTimerFires (clockOn ''2024-01-01'')]
     (initialHook 0) = Some waitingForBookings
   \<and> \<not> isValidated waitingForBookings
   \<and> runs waitingForBookings 0 = Some (AwaitBookings ''2024-01-01'')
   \<and> vstep (BookingsFetched 0 (Inl (JsError (Some ''offline'')))) waitingForBookings
       = Some (validationFailed 0 (JsError (Some ''offline'')) waitingForBookings)
   \<and> \<not> isValidated (validationFailed 0 (JsError (Some ''offline'')) waitingForBookings)
   \<and> toasts (validationFailed 0 (JsError (Some ''offline'')) waitingForBookings)
       = [ToastError ''System validation failed: offline'']
   \<and> ignoringLastUpdate (vstats (validationFailed 0 (JsError (Some ''offline'')) waitingForBookings))
       = (0, 0, 0, 0)"
proof -
  have a: "vrun_all [AuthChanges True (Some 1), ValidationTimerFires (clockOn ''2024-01-01'')]
     (initialHook 0) = Some waitingForBookings"
    by (simp add: waitingForBookings_def authorized_def vstep_def validationEffect_def
        initialHook_def)
  have b: "\<not> isValidated waitingForBookings"
    and c: "runs waitingForBookings 0 = Some (AwaitBookings ''2024-01-01'')"
    and t: "toasts waitingForBookings = []"
    by (simp_all add: waitingForBookings_def authorized_def startValidation_def
        validationEffect_def initialHook_def clockOn_def)
  have f: "fetchFails 0 (AwaitBookings ''2024-01-01'') (JsError (Some ''offline'')) clk
      = BookingsFetched 0 (Inl (JsError (Some ''offline'')))" for clk
    by (simp add: fetchFails_def)
  note th = C7_fetch_failure [where err = "JsError (Some ''offline'')"
      and clk = "clockOn ''2024-01-01''", OF a b c, unfolded f]
  from th have 1: "vstep (BookingsFetched 0 (Inl (JsError (Some ''offline'')))) waitingForBookings
       = Some (validationFailed 0 (JsError (Some ''offline'')) waitingForBookings)"
    by blast
  from th have 2: "\<not> isValidated (validationFailed 0 (JsError (Some ''offline'')) waitingForBookings)"
    by blast
  from th have "toasts (validationFailed 0 (JsError (Some ''offline'')) waitingForBookings)
       = toasts waitingForBookings
         @ [ToastError (''System validation failed: '' @ templateStr (message (JsError (Some ''offline''))))]"
    by blast
  then have 3: "toasts (validationFailed 0 (JsError (Some ''offline'')) waitingForBookings)
       = [ToastError ''System validation failed: offline'']"
    by (simp add: t templateStr_def)
  from th have 4: "ignoringLastUpdate (vstats (validationFailed 0 (JsError (Some ''offline'')) waitingForBookings))
       = (0, 0, 0, 0)"
    by blast
  show ?thesis using a b c 1 2 3 4 by blast
qed

section \<open>The STK push route\<close>

text \<open>A thrown \<open>null\<close> or \<open>undefined\<close> is not answered: the \<open>catch\<close> block
  throws while reading its \<open>message\<close>.\<close>

lemma thrown_nullish_leaves_handler:
  "POST eng (Inl ThrownNullish) push = (Inl (Thrown (Some (JStr (readNullishText eng)))), [])"
  by (simp add: POST_def caught_def)

text \<open>
  Claim C10, as the code has it. When the body is not \<open>null\<close> and one of
  \<open>phoneNumber\<close>, \<open>amount\<close>, \<open>accountRef\<close> is falsy (an amount of 0 is), the handler
  answers 400 with the missing-fields error and has not called \<open>initiateStkPush\<close>. When
  \<open>request.json()\<close> throws, when the body is \<open>null\<close> (the destructuring throws), or
  when \<open>initiateStkPush\<close> throws on three truthy fields, and what is thrown is not
  \<open>null\<close> or \<open>undefined\<close>, the handler answers 500: with the thrown value's
  \<open>message\<close> if that is truthy (a non-empty string, for an error), and with
  "Internal Server Error" if the message is absent or falsy (the empty string is).
\<close>

theorem C10_stkpush_errors:
  "(v \<noteq> JNull \<longrightarrow>
      falsy (getProp v ''phoneNumber'') \<or> falsy (getProp v ''amount'')
        \<or> falsy (getProp v ''accountRef'') \<longrightarrow>
      POST eng (Inr v) push
        = (Inr (Response 400
                 (JObj [(''error'',
                         JStr ''Missing required fields (phoneNumber, amount, accountRef)'')])),
           []))
   \<and> (v \<noteq> JNull \<longrightarrow> getProp v ''amount'' = Some (JNum 0) \<longrightarrow>
      POST eng (Inr v) push
        = (Inr (Response 400
                 (JObj [(''error'',
                         JStr ''Missing required fields (phoneNumber, amount, accountRef)'')])),
           []))
   \<and> (falsy m \<longrightarrow>
      POST eng (Inl (Thrown m)) push
        = (Inr (Response 500 (JObj [(''error'', JStr ''Internal Server Error'')])), []))
   \<and> (\<not> falsy (Some x) \<longrightarrow>
      POST eng (Inl (Thrown (Some x))) push
        = (Inr (Response 500 (JObj [(''error'', x)])), []))
   \<and> (t \<noteq> [] \<longrightarrow>
      POST eng (Inl (Thrown (Some (JStr t)))) push
        = (Inr (Response 500 (JObj [(''error'', JStr t)])), []))
   \<and> POST eng (Inl (Thrown (Some (JStr [])))) push
        = (Inr (Response 500 (JObj [(''error'', JStr ''Internal Server Error'')])), [])
   \<and> POST eng (Inr JNull) push
        = (Inr (Response 500
                 (JObj [(''error'',
                         JStr (if destructureNullText eng = [] then ''Internal Server Error''
                               else destructureNullText eng))])),
           [])
   \<and> (v \<noteq> JNull \<longrightarrow>
      getProp v ''phoneNumber'' = Some p \<longrightarrow> getProp v ''amount'' = Some a \<longrightarrow>
      getProp v ''accountRef'' = Some r \<longrightarrow>
      \<not> falsy (Some p) \<longrightarrow> \<not> falsy (Some a) \<longrightarrow> \<not> falsy (Some r) \<longrightarrow>
      push p a r = Inl (Thrown m) \<longrightarrow> falsy m \<longrightarrow>
      POST eng (Inr v) push
        = (Inr (Response 500 (JObj [(''error'', JStr ''Internal Server Error'')])), [(p, a, r)]))
   \<and> (v \<noteq> JNull \<longrightarrow>
      getProp v ''phoneNumber'' = Some p \<longrightarrow> getProp v ''amount'' = Some a \<longrightarrow>
      getProp v ''accountRef'' = Some r \<longrightarrow>
      \<not> falsy (Some p) \<longrightarrow> \<not> falsy (Some a) \<longrightarrow> \<not> falsy (Some r) \<longrightarrow>
      push p a r = Inl (Thrown (Some x)) \<longrightarrow> \<not> falsy (Some x) \<longrightarrow>
      POST eng (Inr v) push
        = (Inr (Response 500 (JObj [(''error'', x)])), [(p, a, r)]))"
proof -
  have c1: "falsy m \<Longrightarrow> caught eng (Thrown m)
      = Inr (Response 500 (JObj [(''error'', JStr ''Internal Server Error'')]))" for m :: "'a json option"
    by (cases m) (simp_all add: caught_def falsy_def)
  have c2: "\<not> falsy (Some x) \<Longrightarrow> caught eng (Thrown (Some x))
      = Inr (Response 500 (JObj [(''error'', x)]))" for x :: "'a json"
    by (simp add: caught_def)
  have f: "\<not> falsy (Some (JStr t))" if "t \<noteq> []" for t
    using that by (simp add: falsy_def)
  have n: "caught eng (Thrown (Some (JStr (destructureNullText eng))))
      = Inr (Response 500
               (JObj [(''error'',
                       JStr (if destructureNullText eng = [] then ''Internal Server Error''
                             else destructureNullText eng))]))"
    by (simp add: caught_def falsy_def)
  have z: "falsy (Some (JNum 0))"
    by (simp add: falsy_def)
  have e: "falsy (Some (JStr [] :: 'a json))"
    by (simp add: falsy_def)
  show ?thesis
    using c1 [of m] c2 [of x] c2 [of "JStr t"] f [of t] n z c1 [OF e]
    by (cases v) (auto simp: POST_def destructure_def missingFields_def)
qed

text \<open>The theorem for a body whose amount is 0, for a complete body when
  \<open>initiateStkPush\<close> throws an error with the message "timeout", and for a
  \<open>request.json()\<close> that throws a value without a message.\<close>

theorem C10_stkpush_errors_witness:
  "POST someEngine (Inr zeroAmountBody) pushTimesOut
       = (Inr (Response 400
                (JObj [(''error'',
                        JStr ''Missing required fields (phoneNumber, amount, accountRef)'')])),
          [])
   \<and> POST someEngine (Inr fullBody) pushTimesOut
       = (Inr (Response 500 (JObj [(''error'', JStr ''timeout'')])),
          [(JStr ''254700000000'', JNum 150, JStr ''INV-1'')])
   \<and> POST someEngine (Inl (Thrown None)) pushTimesOut
       = (Inr (Response 500 (JObj [(''error'', JStr ''Internal Server Error'')])), [])"
proof -
  have z: "zeroAmountBody \<noteq> JNull" "getProp zeroAmountBody ''amount'' = Some (JNum 0)"
    by (simp_all add: zeroAmountBody_def getProp_def)
  have g: "fullBody \<noteq> JNull" "getProp fullBody ''phoneNumber'' = Some (JStr ''254700000000'')"
    "getProp fullBody ''amount'' = Some (JNum 150)"
    "getProp fullBody ''accountRef'' = Some (JStr ''INV-1'')"
    by (simp_all add: fullBody_def getProp_def)
  have t: "\<not> falsy (Some (JStr ''254700000000'' :: int json))"
    "\<not> falsy (Some (JNum 150 :: int json))"
    "\<not> falsy (Some (JStr ''INV-1'' :: int json))"
    "\<not> falsy (Some (JStr ''timeout'' :: int json))"
    "falsy (None :: int json option)"
    by (simp_all add: falsy_def)
  have p: "pushTimesOut (JStr ''254700000000'') (JNum 150) (JStr ''INV-1'')
      = Inl (Thrown (Some (JStr ''timeout'')))"
    by (simp add: pushTimesOut_def)
  from C10_stkpush_errors [where v = zeroAmountBody and push = pushTimesOut and eng = someEngine]
  have one: "POST someEngine (Inr zeroAmountBody) pushTimesOut
       = (Inr (Response 400
                (JObj [(''error'',
                        JStr ''Missing required fields (phoneNumber, amount, accountRef)'')])),
          [])"
    using z by blast
  from C10_stkpush_errors [where v = fullBody and push = pushTimesOut and eng = someEngine
      and x = "JStr ''timeout''" and p = "JStr ''254700000000''" and a = "JNum 150"
      and r = "JStr ''INV-1''"]
  have two: "POST someEngine (Inr fullBody) pushTimesOut
       = (Inr (Response 500 (JObj [(''error'', JStr ''timeout'')])),
          [(JStr ''254700000000'', JNum 150, JStr ''INV-1'')])"
    using g t p by blast
  from C10_stkpush_errors [where push = pushTimesOut and eng = someEngine and m = None]
  have three: "POST someEngine (Inl (Thrown None)) pushTimesOut
       = (Inr (Response 500 (JObj [(''error'', JStr ''Internal Server Error'')])), [])"
    using t by blast
  show ?thesis using one two three by blast
qed

text \<open>
  Claim C10 as it is worded fails at two thrown values. When \<open>initiateStkPush\<close> throws
  an error whose message is the empty string, the response carries "Internal Server
  Error", not the thrown error's message. When it throws \<open>null\<close>, there is no
  response: the \<open>TypeError\<close> of the \<open>catch\<close> block leaves the handler.
\<close>

theorem C10_thrown_counterexample:
  "POST someEngine (Inr fullBody) pushThrowsEmpty
     = (Inr (Response 500 (JObj [(''error'', JStr ''Internal Server Error'')])),
        [(JStr ''254700000000'', JNum 150, JStr ''INV-1'')])
   \<and> JStr ''Internal Server Error'' \<noteq> (JStr [] :: int json)
   \<and> POST someEngine (Inr fullBody) pushThrowsNull
     = (Inl (Thrown (Some (JStr ''Cannot read properties of null''))),
        [(JStr ''254700000000'', JNum 150, JStr ''INV-1'')])"
  by (simp add: POST_def destructure_def caught_def falsy_def getProp_def fullBody_def
      pushThrowsEmpty_def pushThrowsNull_def someEngine_def)

end
